theory Spec2Isabelle
  imports Main "HOL-Library.Sublist"
begin

section \<open>Go values used by the interceptors\<close>

text \<open>
  A Go \<^verbatim>\<open>error\<close> is an interface value; \<^verbatim>\<open>nil\<close> is \<open>None\<close> of
  \<open>error option\<close>. Two implementations are represented: the value built by
  \<^verbatim>\<open>errors.New\<close> (the interceptor builds one itself) and a gRPC status error with
  its code and message (what handlers and invokers usually return).
\<close>

datatype error = errors_New string | status_Error nat string

text \<open>
  A panic carries its value. \<open>runtime_boundsError i\<close> is the runtime error
  \<^verbatim>\<open>slice bounds out of range [:i]\<close> raised by a slice expression whose upper bound
  is outside \<open>0..len\<close>.
\<close>

datatype panic = runtime_boundsError int | panic_value string

datatype 'a outcome = Return 'a | Panic panic

section \<open>The standard-library string functions called by the Target Normalizer\<close>

text \<open>
  Strings are byte sequences, as in Go. \<^verbatim>\<open>strings.IndexByte\<close> and
  \<^verbatim>\<open>strings.Index\<close> return the index of the first occurrence, or \<open>-1\<close>.
\<close>

fun IndexByte :: "string \<Rightarrow> char \<Rightarrow> int" where
  "IndexByte [] c = - 1"
| "IndexByte (x # xs) c =
     (if x = c then 0
      else (let i = IndexByte xs c in if i < 0 then - 1 else i + 1))"

fun Index :: "string \<Rightarrow> string \<Rightarrow> int" where
  "Index [] substr = (if substr = [] then 0 else - 1)"
| "Index (x # xs) substr =
     (if prefix substr (x # xs) then 0
      else (let i = Index xs substr in if i < 0 then - 1 else i + 1))"

text \<open>
  The slice expression \<^verbatim>\<open>s[:hi]\<close>: Go panics unless \<open>0 \<le> hi \<le> len(s)\<close>.
\<close>

definition slice_to :: "string \<Rightarrow> int \<Rightarrow> panic + string" where
  "slice_to s hi =
     (if hi < 0 \<or> int (length s) < hi then Inl (runtime_boundsError hi)
      else Inr (take (nat hi) s))"

text \<open>
  \<^verbatim>\<open>utf8.DecodeRuneInString\<close>, its width only: one byte for ASCII and for every
  invalid or short encoding, otherwise the length of the well-formed sequence.
\<close>

definition byte_in :: "nat \<Rightarrow> nat \<Rightarrow> char \<Rightarrow> bool" where
  "byte_in lo hi c = (lo \<le> (of_char c :: nat) \<and> (of_char c :: nat) \<le> hi)"

definition rune_width :: "string \<Rightarrow> nat" where
  "rune_width s =
     (case s of
        [] \<Rightarrow> 0
      | s0 # _ \<Rightarrow>
          (let b = (of_char s0 :: nat) in
           if b < 0xC2 \<or> 0xF4 < b then 1
           else
             (let sz = (if b < 0xE0 then 2 else if b < 0xF0 then 3 else (4::nat));
                  lo = (if b = 0xE0 then 0xA0 else if b = 0xF0 then 0x90 else 0x80);
                  hi = (if b = 0xED then 0x9F else if b = 0xF4 then 0x8F else 0xBF)
              in if length s < sz then 1
                 else if \<not> byte_in lo hi (s ! 1) then 1
                 else if sz \<le> 2 then 2
                 else if \<not> byte_in 0x80 0xBF (s ! 2) then 1
                 else if sz \<le> 3 then 3
                 else if \<not> byte_in 0x80 0xBF (s ! 3) then 1
                 else 4)))"

function RuneCountInString :: "string \<Rightarrow> nat" where
  "RuneCountInString s =
     (if s = [] then 0 else 1 + RuneCountInString (drop (rune_width s) s))"
  by pat_completeness auto
termination
proof (relation "measure length", goal_cases)
  case 1
  show ?case by simp
next
  case (2 s)
  then have "0 < rune_width s"
    by (cases s) (simp_all add: rune_width_def Let_def)
  with 2 show ?case by simp
qed

text \<open>
  \<^verbatim>\<open>strings.Count\<close>: the number of non-overlapping instances of \<open>substr\<close>; for the
  empty \<open>substr\<close> it is one more than the number of runes. The loop cuts the string
  after each instance found by \<open>Index\<close>.
\<close>

function count_loop :: "string \<Rightarrow> string \<Rightarrow> nat" where
  "count_loop s substr =
     (if substr = [] then 0
      else if Index s substr < 0 then 0
      else 1 + count_loop (drop (nat (Index s substr) + length substr) s) substr)"
  by pat_completeness auto
termination
proof (relation "measure (\<lambda>(s, substr). length s)", goal_cases)
  case 1
  show ?case by simp
next
  case (2 s substr)
  then have "s \<noteq> []" by (cases s) simp_all
  with 2 show ?case by simp
qed

definition Count :: "string \<Rightarrow> string \<Rightarrow> nat" where
  "Count s substr =
     (if substr = [] then RuneCountInString s + 1 else count_loop s substr)"

text \<open>
  The replacement loop of \<^verbatim>\<open>strings.Replace\<close>, run \<open>n\<close> times. The first argument
  counts the iterations left, \<open>s\<close> is \<^verbatim>\<open>s[start:]\<close>, and \<open>first\<close> says
  whether this is iteration \<open>i = 0\<close> (an empty \<open>old\<close> matches at the start, then
  after each rune). What is left of \<open>s\<close> after the loop is written out unchanged.
\<close>

fun replace_loop :: "nat \<Rightarrow> string \<Rightarrow> string \<Rightarrow> string \<Rightarrow> bool \<Rightarrow> string" where
  "replace_loop 0 s old new first = s"
| "replace_loop (Suc k) s old new first =
     (let j = (if old = [] then (if first then 0 else rune_width s)
               else nat (Index s old))
      in take j s @ new @ replace_loop k (drop (j + length old) s) old new False)"

text \<open>\<^verbatim>\<open>strings.ReplaceAll(s, old, new)\<close> is \<^verbatim>\<open>Replace(s, old, new, -1)\<close>.\<close>

definition ReplaceAll :: "string \<Rightarrow> string \<Rightarrow> string \<Rightarrow> string" where
  "ReplaceAll s old new =
     (if old = new then s
      else if Count s old = 0 then s
      else replace_loop (Count s old) s old new True)"

section \<open>Target Normalizer\<close>

text \<open>
  \<^verbatim>\<open>GetDefaultHostFromTargetFunc(namespace)\<close> returns a closure; the model takes the
  namespace and the target together. \<^verbatim>\<open>fmt.Sprintf(".%s", namespace)\<close> is the
  namespace with a dot in front. The slice panics when \<open>IndexByte\<close> returns \<open>-1\<close>.
\<close>

definition GetDefaultHostFromTargetFunc :: "string \<Rightarrow> string \<Rightarrow> panic + string" where
  "GetDefaultHostFromTargetFunc namespace target =
     (case slice_to target (IndexByte target (CHR '':'')) of
        Inl p \<Rightarrow> Inl p
      | Inr withoutPort \<Rightarrow> Inr (ReplaceAll withoutPort (CHR ''.'' # namespace) []))"

section \<open>Transport and tracing values\<close>

text \<open>
  gRPC metadata is a Go map from keys to lists of values. A context carries the incoming
  metadata (absent when the call has none), the key-value pairs appended for the outgoing
  call, the peer (absent outside a transport), and the current tracing segment, a pointer.
  The framework passes the interceptors a non-nil connection, server info, handler and
  invoker, and a peer whose address is set; the address is kept as its \<^verbatim>\<open>String()\<close>.
\<close>

type_synonym seg_ptr = nat

type_synonym MD = "string \<rightharpoonup> string list"

record Peer =
  Addr :: string

record Context =
  incoming_md :: "MD option"
  outgoing_md :: "(string \<times> string) list"
  peer :: "Peer option"
  segment :: "seg_ptr option"

record UnaryServerInfo =
  FullMethod :: string

record ClientConn =
  Target :: string

text \<open>
  The parsed trace header is kept as the string given to \<^verbatim>\<open>header.FromString\<close>: the
  parser belongs to the tracing SDK.
\<close>

datatype Header = FromString string

record RequestData =
  Method :: string
  URL :: string
  UserAgent :: string
  ClientIP :: string
  XForwardedFor :: bool
  Traced :: bool

record ResponseData =
  Status :: int
  ContentLength :: int

record HTTPData =
  Request :: "RequestData option"
  Response :: "ResponseData option"

record Segment =
  HTTP :: "HTTPData option"
  InProgress :: bool

text \<open>
  Segments live in a store indexed by pointer, shared with the wrapped handler or invoker,
  which receive the store and return it changed as they like. \<open>fresh\<close> is the next
  unused pointer.
\<close>

record world =
  segs :: "seg_ptr \<Rightarrow> Segment"
  fresh :: seg_ptr

definition GrpcMethod :: string where
  "GrpcMethod = ''POST''"

definition CustomUserAgent :: string where
  "CustomUserAgent = ''Vendrive-gRPC-XRAY-Interceptor''"

definition TraceIDHeaderKey :: string where
  "TraceIDHeaderKey = ''x-amzn-trace-id''"

text \<open>
  What the interceptor itself does, in program order: the calls it makes to the SDK, to
  the transport and to the wrapped functions, and its writes to segment fields. The wrapped
  handler and invoker cannot touch this list.
\<close>

datatype action =
    Call_Name string
  | New_segment string Header seg_ptr
  | Begin_subsegment string "seg_ptr option"
  | Lock seg_ptr
  | Unlock seg_ptr
  | Close seg_ptr "error option"
  | Write_Request seg_ptr RequestData
  | Write_Request_Method seg_ptr string
  | Write_Response_Status seg_ptr int
  | Append_outgoing string string
  | Call_hostFromTarget string
  | Call_handler
  | Call_invoker

subsection \<open>Segment accessors of the SDK\<close>

text \<open>
  Modelled from the spec: the segment operations of the tracing backend (section 6, item
  c: get and set the HTTP request fields and the response status), which are SDK code.
  \<^verbatim>\<open>GetHTTP\<close>, \<^verbatim>\<open>GetRequest\<close> and \<^verbatim>\<open>GetResponse\<close> allocate a zero value when the
  pointer is nil. Each assignment of the interceptors goes through them.
\<close>

definition new_Segment :: Segment where
  "new_Segment = \<lparr>HTTP = None, InProgress = True\<rparr>"

definition GetHTTP :: "Segment \<Rightarrow> HTTPData" where
  "GetHTTP s = (case HTTP s of None \<Rightarrow> \<lparr>Request = None, Response = None\<rparr> | Some d \<Rightarrow> d)"

definition GetRequest :: "HTTPData \<Rightarrow> RequestData" where
  "GetRequest d =
     (case Request d of
        None \<Rightarrow> \<lparr>Method = [], URL = [], UserAgent = [], ClientIP = [],
                 XForwardedFor = False, Traced = False\<rparr>
      | Some r \<Rightarrow> r)"

definition GetResponse :: "HTTPData \<Rightarrow> ResponseData" where
  "GetResponse d =
     (case Response d of None \<Rightarrow> \<lparr>Status = 0, ContentLength = 0\<rparr> | Some r \<Rightarrow> r)"

definition assign_Request :: "RequestData \<Rightarrow> Segment \<Rightarrow> Segment" where
  "assign_Request r s = s\<lparr>HTTP := Some ((GetHTTP s)\<lparr>Request := Some r\<rparr>)\<rparr>"

definition assign_Request_Method :: "string \<Rightarrow> Segment \<Rightarrow> Segment" where
  "assign_Request_Method m s =
     (let d = GetHTTP s
      in s\<lparr>HTTP := Some (d\<lparr>Request := Some ((GetRequest d)\<lparr>Method := m\<rparr>)\<rparr>)\<rparr>)"

definition assign_Response_Status :: "int \<Rightarrow> Segment \<Rightarrow> Segment" where
  "assign_Response_Status st s =
     (let d = GetHTTP s
      in s\<lparr>HTTP := Some (d\<lparr>Response := Some ((GetResponse d)\<lparr>Status := st\<rparr>)\<rparr>)\<rparr>)"

definition on_seg :: "seg_ptr \<Rightarrow> (Segment \<Rightarrow> Segment) \<Rightarrow> world \<Rightarrow> world" where
  "on_seg p f w = w\<lparr>segs := (segs w)(p := f (segs w p))\<rparr>"

text \<open>
  Modelled from the spec: closing finalises the segment (section 3). \<^verbatim>\<open>seg.Close(err)\<close>
  ends the segment; recording the error and sending the segment to the daemon are the
  SDK's and appear only as the \<open>Close\<close> action.
\<close>

definition Close_seg :: "seg_ptr \<Rightarrow> world \<Rightarrow> world" where
  "Close_seg p w = on_seg p (\<lambda>s. s\<lparr>InProgress := False\<rparr>) w"

text \<open>Reading a segment's HTTP fields without allocating.\<close>

definition request_of :: "Segment \<Rightarrow> RequestData option" where
  "request_of s = (case HTTP s of None \<Rightarrow> None | Some d \<Rightarrow> Request d)"

definition response_status :: "Segment \<Rightarrow> int option" where
  "response_status s =
     (case HTTP s of
        None \<Rightarrow> None
      | Some d \<Rightarrow> (case Response d of None \<Rightarrow> None | Some r \<Rightarrow> Some (Status r)))"

text \<open>
  Modelled from the spec: the scoped segment creation of the tracing backend (section 6,
  item a). \<^verbatim>\<open>xray.NewSegmentFromHeader(ctx, name, nil, h)\<close> allocates a segment and
  returns it with a context that carries it.
\<close>

definition NewSegmentFromHeader ::
  "Context \<Rightarrow> string \<Rightarrow> Header \<Rightarrow> world \<Rightarrow> Context \<times> seg_ptr \<times> world" where
  "NewSegmentFromHeader ctx name h w =
     (let p = fresh w
      in (ctx\<lparr>segment := Some p\<rparr>, p,
          w\<lparr>segs := (segs w)(p := new_Segment), fresh := Suc p\<rparr>))"

text \<open>
  Modelled from the spec: fetching the current segment returns none when tracing is
  inactive (section 6, item b). \<^verbatim>\<open>xray.BeginSubsegment\<close> makes a child of the
  segment in the context; without one the SDK reports the missing context (logged by the
  default strategy) and returns nothing.
\<close>

definition BeginSubsegment ::
  "Context \<Rightarrow> string \<Rightarrow> world \<Rightarrow> (Context \<times> seg_ptr \<times> world) option" where
  "BeginSubsegment ctx name w =
     (case segment ctx of
        None \<Rightarrow> None
      | Some parent \<Rightarrow>
          (let p = fresh w
           in Some (ctx\<lparr>segment := Some p\<rparr>, p,
                    w\<lparr>segs := (segs w)(p := new_Segment), fresh := Suc p\<rparr>)))"

text \<open>
  Modelled from the spec: the scoped tracing call (section 4.1, steps 2, 3 and 8).
  \<^verbatim>\<open>xray.Capture(ctx, name, fn)\<close> begins a subsegment, runs \<open>fn\<close> on the context
  that carries it (on the caller's context when there is none), and closes the subsegment
  with the error \<open>fn\<close> returned.
\<close>

definition Capture ::
  "Context \<Rightarrow> string \<Rightarrow> (Context \<Rightarrow> world \<Rightarrow> error option \<times> world \<times> action list)
     \<Rightarrow> world \<Rightarrow> error option \<times> world \<times> action list" where
  "Capture ctx name fn w =
     (case BeginSubsegment ctx name w of
        None \<Rightarrow>
          (case fn ctx w of
             (err, w', tr) \<Rightarrow> (err, w', Begin_subsegment name None # tr))
      | Some (c, seg, w1) \<Rightarrow>
          (case fn c w1 of
             (err, w', tr) \<Rightarrow>
               (err, Close_seg seg w', Begin_subsegment name (Some seg) # tr @ [Close seg err])))"

text \<open>
  Modelled from the spec: outgoing metadata attachable to a context (section 6, RPC
  transport). \<^verbatim>\<open>metadata.AppendToOutgoingContext\<close> adds one key-value pair.
\<close>

definition AppendToOutgoingContext :: "Context \<Rightarrow> string \<Rightarrow> string \<Rightarrow> Context" where
  "AppendToOutgoingContext ctx k v = ctx\<lparr>outgoing_md := outgoing_md ctx @ [(k, v)]\<rparr>"

section \<open>Client interceptor\<close>

text \<open>
  The closure given to \<^verbatim>\<open>xray.Capture\<close>. \<^verbatim>\<open>xray.GetSegment(ctx)\<close> reads the
  context's segment. \<open>downstream\<close> stands for
  \<^verbatim>\<open>seg.DownstreamHeader().String()\<close>, which the SDK computes from the segment and its
  parents. The invoker returns its error and the store; a panic of the invoker would be
  handled inside \<open>Capture\<close> and is not modelled.
\<close>

type_synonym ('req, 'resp, 'opt) invoker =
  "Context \<Rightarrow> string \<Rightarrow> 'req \<Rightarrow> 'resp \<Rightarrow> ClientConn \<Rightarrow> 'opt list \<Rightarrow> world
     \<Rightarrow> error option \<times> world"

definition client_body ::
  "(world \<Rightarrow> seg_ptr \<Rightarrow> string) \<Rightarrow> string \<Rightarrow> 'req \<Rightarrow> 'resp \<Rightarrow> ClientConn
     \<Rightarrow> ('req, 'resp, 'opt) invoker \<Rightarrow> 'opt list
     \<Rightarrow> Context \<Rightarrow> world \<Rightarrow> error option \<times> world \<times> action list" where
  "client_body downstream method req resp cc invoker opts ctx w =
     (case segment ctx of
        None \<Rightarrow>
          (case invoker ctx method req resp cc opts w of
             (err, w') \<Rightarrow> (err, w', [Call_invoker]))
      | Some seg \<Rightarrow>
          (let w1 = on_seg seg (assign_Request_Method GrpcMethod) w;
               h = downstream w1 seg;
               ctx' = AppendToOutgoingContext ctx TraceIDHeaderKey h
           in case invoker ctx' method req resp cc opts w1 of
                (err, w2) \<Rightarrow>
                  (let st = (if err \<noteq> None then 400 else 200);
                       w3 = on_seg seg (assign_Response_Status st) w2
                   in (err, w3,
                       [Lock seg, Write_Request_Method seg GrpcMethod,
                        Append_outgoing TraceIDHeaderKey h, Unlock seg,
                        Call_invoker,
                        Lock seg, Write_Response_Status seg st, Unlock seg]))))"

text \<open>
  \<open>hostFromTarget\<close> is the caller's function; it may panic, as the default one does.
\<close>

definition NewGrpcXrayUnaryClientInterceptor ::
  "(string \<Rightarrow> panic + string) \<Rightarrow> (world \<Rightarrow> seg_ptr \<Rightarrow> string)
     \<Rightarrow> Context \<Rightarrow> string \<Rightarrow> 'req \<Rightarrow> 'resp \<Rightarrow> ClientConn
     \<Rightarrow> ('req, 'resp, 'opt) invoker \<Rightarrow> 'opt list
     \<Rightarrow> world \<Rightarrow> (error option) outcome \<times> world \<times> action list" where
  "NewGrpcXrayUnaryClientInterceptor hostFromTarget downstream ctx method req resp cc invoker opts w =
     (case hostFromTarget (Target cc) of
        Inl p \<Rightarrow> (Panic p, w, [Call_hostFromTarget (Target cc)])
      | Inr host \<Rightarrow>
          (case Capture ctx host (client_body downstream method req resp cc invoker opts) w of
             (err, w', tr) \<Rightarrow> (Return err, w', Call_hostFromTarget (Target cc) # tr)))"

section \<open>Server interceptor\<close>

text \<open>
  The handler returns its result and error, or panics; either way it may have changed the
  store. The interceptor is written in three parts: what it does before the handler, the
  handler call, and what it does afterwards, the deferred \<^verbatim>\<open>seg.Close(nil)\<close> last.
\<close>

type_synonym ('req, 'resp) handler =
  "Context \<Rightarrow> 'req \<Rightarrow> world \<Rightarrow> ('resp option \<times> error option) outcome \<times> world"

definition traceString_of :: "MD \<Rightarrow> string" where
  "traceString_of md =
     (case md TraceIDHeaderKey of
        None \<Rightarrow> []
      | Some traceHeaderValueList \<Rightarrow>
          (if length traceHeaderValueList > 0 then traceHeaderValueList ! 0 else []))"

definition server_before_handler ::
  "(string \<Rightarrow> string) \<Rightarrow> Context \<Rightarrow> UnaryServerInfo \<Rightarrow> world
     \<Rightarrow> (error + Context \<times> seg_ptr \<times> world) \<times> action list" where
  "server_before_handler sn ctx info w =
     (let arg = ''only NewFixedSegmentNamer is supported'';
          name = sn arg
      in case incoming_md ctx of
           None \<Rightarrow> (Inl (errors_New ''unable to read metadata''), [Call_Name arg])
         | Some md \<Rightarrow>
             (let traceHeader = FromString (traceString_of md)
              in case NewSegmentFromHeader ctx name traceHeader w of
                   (ctx1, seg, w1) \<Rightarrow>
                     (let ClientIP = (case peer ctx1 of None \<Rightarrow> [] | Some p \<Rightarrow> Addr p);
                          reqData = \<lparr>Method = GrpcMethod, URL = FullMethod info,
                                     UserAgent = CustomUserAgent, ClientIP = ClientIP,
                                     XForwardedFor = False, Traced = False\<rparr>;
                          w2 = on_seg seg (assign_Request reqData) w1
                      in (Inr (ctx1, seg, w2),
                          [Call_Name arg, New_segment name traceHeader seg,
                           Lock seg, Write_Request seg reqData, Unlock seg]))))"

definition server_after_handler ::
  "seg_ptr \<Rightarrow> ('resp option \<times> error option) outcome \<times> world
     \<Rightarrow> ('resp option \<times> error option) outcome \<times> world \<times> action list" where
  "server_after_handler seg r =
     (case r of
        (Panic p, w2) \<Rightarrow> (Panic p, Close_seg seg w2, [Call_handler, Close seg None])
      | (Return (resp, err), w2) \<Rightarrow>
          (let st = (if err \<noteq> None then 400 else 200);
               w3 = on_seg seg (assign_Response_Status st) w2
           in (Return (resp, err), Close_seg seg w3,
               [Call_handler, Lock seg, Write_Response_Status seg st, Unlock seg,
                Close seg None])))"

definition NewGrpcXrayUnaryServerInterceptor ::
  "(string \<Rightarrow> string) \<Rightarrow> Context \<Rightarrow> 'req \<Rightarrow> UnaryServerInfo \<Rightarrow> ('req, 'resp) handler
     \<Rightarrow> world \<Rightarrow> ('resp option \<times> error option) outcome \<times> world \<times> action list" where
  "NewGrpcXrayUnaryServerInterceptor sn ctx req info handler w =
     (case server_before_handler sn ctx info w of
        (Inl e, tr) \<Rightarrow> (Return (None, Some e), w, tr)
      | (Inr (ctx1, seg, w2), tr) \<Rightarrow>
          (case server_after_handler seg (handler ctx1 req w2) of
             (out, w', tr') \<Rightarrow> (out, w', tr @ tr')))"

section \<open>The specification's reading of the Target Normalizer\<close>

text \<open>
  These follow the specification's words, not the code: the target up to its first
  colon, a string with the first occurrence of a pattern removed, and a string with every
  occurrence removed, scanning from the left and continuing after each removed
  occurrence.
\<close>

definition spec_before_colon :: "string \<Rightarrow> string" where
  "spec_before_colon target = takeWhile (\<lambda>c. c \<noteq> CHR '':'') target"

fun spec_remove_first :: "string \<Rightarrow> string \<Rightarrow> string" where
  "spec_remove_first pat [] = []"
| "spec_remove_first pat (c # cs) =
     (if prefix pat (c # cs) then drop (length pat) (c # cs)
      else c # spec_remove_first pat cs)"

function spec_remove_all :: "string \<Rightarrow> string \<Rightarrow> string" where
  "spec_remove_all pat [] = []"
| "spec_remove_all pat (c # cs) =
     (if pat \<noteq> [] \<and> prefix pat (c # cs)
      then spec_remove_all pat (drop (length pat) (c # cs))
      else c # spec_remove_all pat cs)"
  by pat_completeness auto
termination
  by (relation "measure (\<lambda>(pat, s). length s)") auto

section \<open>Selecting actions\<close>

fun is_Close :: "action \<Rightarrow> bool" where
  "is_Close (Close p e) = True"
| "is_Close _ = False"

fun is_New_segment :: "action \<Rightarrow> bool" where
  "is_New_segment (New_segment n h p) = True"
| "is_New_segment _ = False"

fun is_status_write :: "action \<Rightarrow> bool" where
  "is_status_write (Write_Response_Status p st) = True"
| "is_status_write _ = False"

fun is_hostFromTarget :: "action \<Rightarrow> bool" where
  "is_hostFromTarget (Call_hostFromTarget t) = True"
| "is_hostFromTarget _ = False"

section \<open>Concrete calls\<close>

text \<open>The inputs at which the theorems below are instantiated.\<close>

definition fixed_namer :: "string \<Rightarrow> string \<Rightarrow> string" where
  "fixed_namer name host = name"

definition ex_world :: world where
  "ex_world = \<lparr>segs = (\<lambda>p. new_Segment), fresh = 0\<rparr>"

definition ex_md :: MD where
  "ex_md = [TraceIDHeaderKey \<mapsto> [''Root=1-5759e988-bd862e3fe1be46a994272793;Sampled=1'']]"

definition ex_md_empty_list :: MD where
  "ex_md_empty_list = [TraceIDHeaderKey \<mapsto> []]"

definition ex_ctx :: Context where
  "ex_ctx = \<lparr>incoming_md = Some ex_md, outgoing_md = [],
             peer = Some \<lparr>Addr = ''10.0.0.7:51234''\<rparr>, segment = None\<rparr>"

definition ex_ctx_no_peer :: Context where
  "ex_ctx_no_peer = \<lparr>incoming_md = Some ex_md_empty_list, outgoing_md = [],
                     peer = None, segment = None\<rparr>"

definition ex_ctx_no_md :: Context where
  "ex_ctx_no_md = \<lparr>incoming_md = None, outgoing_md = [],
                   peer = Some \<lparr>Addr = ''10.0.0.7:51234''\<rparr>, segment = None\<rparr>"

definition ex_ctx_traced :: Context where
  "ex_ctx_traced = \<lparr>incoming_md = None, outgoing_md = [], peer = None, segment = Some 0\<rparr>"

definition ex_ctx_untraced :: Context where
  "ex_ctx_untraced = \<lparr>incoming_md = None, outgoing_md = [], peer = None, segment = None\<rparr>"

definition ex_world_traced :: world where
  "ex_world_traced = \<lparr>segs = (\<lambda>p. new_Segment), fresh = 1\<rparr>"

definition ex_info :: UnaryServerInfo where
  "ex_info = \<lparr>FullMethod = ''/pkg.Svc/Get''\<rparr>"

definition ex_err :: error where
  "ex_err = status_Error 5 ''not found''"

definition handler_ok :: "(nat, nat) handler" where
  "handler_ok ctx req w = (Return (Some (req + 1), None), w)"

definition handler_fails :: "(nat, nat) handler" where
  "handler_fails ctx req w = (Return (None, Some ex_err), w)"

definition handler_fails_with_result :: "(nat, nat) handler" where
  "handler_fails_with_result ctx req w = (Return (Some 7, Some ex_err), w)"

definition handler_panics :: "(nat, nat) handler" where
  "handler_panics ctx req w = (Panic (panic_value ''boom''), w)"

definition ex_cc :: ClientConn where
  "ex_cc = \<lparr>Target = ''my-service.my-namespace.local:3000''\<rparr>"

definition ex_cc_no_port :: ClientConn where
  "ex_cc_no_port = \<lparr>Target = ''my-service''\<rparr>"

definition ex_downstream :: "world \<Rightarrow> seg_ptr \<Rightarrow> string" where
  "ex_downstream w p = ''Root=1-5759e988-bd862e3fe1be46a994272793;Parent=53995c3f42cd8ad8;Sampled=1''"

definition invoker_ok :: "(nat, nat, nat) invoker" where
  "invoker_ok ctx method req resp cc opts w = (None, w)"

definition invoker_fails :: "(nat, nat, nat) invoker" where
  "invoker_fails ctx method req resp cc opts w = (Some ex_err, w)"

text \<open>
  What the server interceptor has done when it calls the handler on \<open>ex_ctx\<close>, and
  what \<open>BeginSubsegment\<close> returns on \<open>ex_ctx_traced\<close>.
\<close>

definition ex_reqData :: RequestData where
  "ex_reqData = \<lparr>Method = ''POST'', URL = ''/pkg.Svc/Get'',
                 UserAgent = ''Vendrive-gRPC-XRAY-Interceptor'',
                 ClientIP = ''10.0.0.7:51234'', XForwardedFor = False, Traced = False\<rparr>"

definition ex_ctx1 :: Context where
  "ex_ctx1 = ex_ctx\<lparr>segment := Some 0\<rparr>"

definition ex_w1 :: world where
  "ex_w1 = on_seg 0 (assign_Request ex_reqData)
             (ex_world\<lparr>segs := (segs ex_world)(0 := new_Segment), fresh := 1\<rparr>)"

definition ex_tr :: "action list" where
  "ex_tr = [Call_Name ''only NewFixedSegmentNamer is supported'',
            New_segment ''svc''
              (FromString ''Root=1-5759e988-bd862e3fe1be46a994272793;Sampled=1'') 0,
            Lock 0, Write_Request 0 ex_reqData, Unlock 0]"

definition ex_c :: Context where
  "ex_c = ex_ctx_traced\<lparr>segment := Some 1\<rparr>"

definition ex_wb :: world where
  "ex_wb = ex_world_traced\<lparr>segs := (segs ex_world_traced)(1 := new_Segment), fresh := 2\<rparr>"

section \<open>Properties of the Target Normalizer\<close>

declare count_loop.simps [simp del] RuneCountInString.simps [simp del]

lemma IndexByte_neg_iff: "IndexByte s c < 0 \<longleftrightarrow> c \<notin> set s"
  by (induction s) (auto simp: Let_def)

lemma IndexByte_absent: "c \<notin> set s \<Longrightarrow> IndexByte s c = - 1"
  by (induction s) (auto simp: Let_def)

lemma IndexByte_present:
  "c \<in> set s \<Longrightarrow> IndexByte s c = int (length (takeWhile (\<lambda>x. x \<noteq> c) s))"
  by (induction s) (auto simp: Let_def IndexByte_neg_iff)

lemma slice_to_IndexByte_present:
  assumes "c \<in> set s"
  shows "slice_to s (IndexByte s c) = Inr (takeWhile (\<lambda>x. x \<noteq> c) s)"
proof -
  have "length (takeWhile (\<lambda>x. x \<noteq> c) s) \<le> length s"
    by (rule length_takeWhile_le)
  moreover have "take (length (takeWhile (\<lambda>x. x \<noteq> c) s)) s = takeWhile (\<lambda>x. x \<noteq> c) s"
    by (induction s) auto
  ultimately show ?thesis
    using assms by (simp add: slice_to_def IndexByte_present)
qed

lemma slice_to_IndexByte_absent:
  "c \<notin> set s \<Longrightarrow> slice_to s (IndexByte s c) = Inl (runtime_boundsError (- 1))"
  by (simp add: slice_to_def IndexByte_absent)

text \<open>
  The counting loop, one character at a time: an instance at the head is counted and
  skipped whole; otherwise the head plays no part.
\<close>

lemma count_loop_Cons:
  "pat \<noteq> [] \<Longrightarrow> \<not> prefix pat (c # cs) \<Longrightarrow> count_loop (c # cs) pat = count_loop cs pat"
  by (subst count_loop.simps, subst (2) count_loop.simps) (auto simp: Let_def nat_add_distrib)

lemma count_loop_prefix:
  "pat \<noteq> [] \<Longrightarrow> prefix pat s \<Longrightarrow> count_loop s pat = Suc (count_loop (drop (length pat) s) pat)"
  by (subst count_loop.simps) (cases s; auto)

text \<open>
  The library's index loop, run as many times as \<open>Count\<close> says, removes exactly the
  occurrences the left-to-right scan removes.
\<close>

lemma replace_loop_eq_spec:
  "pat \<noteq> [] \<Longrightarrow> replace_loop (count_loop s pat) s pat [] b = spec_remove_all pat s"
proof (induction pat s arbitrary: b rule: spec_remove_all.induct)
  case (1 pat)
  then show ?case by (simp add: count_loop.simps)
next
  case (2 pat c cs)
  show ?case
  proof (cases "prefix pat (c # cs)")
    case True
    with 2 show ?thesis
      by (simp add: count_loop_prefix)
  next
    case False
    note np = this
    show ?thesis
    proof (cases "count_loop cs pat")
      case 0
      with 2 np show ?thesis
        using "2.IH"(2)[of b] by (simp add: count_loop_Cons)
    next
      case (Suc k)
      then have "\<not> Index cs pat < 0" using 2(3)
        by (subst (asm) count_loop.simps) (auto split: if_splits)
      with 2 np Suc show ?thesis
        using "2.IH"(2)[of b]
        by (simp add: count_loop_Cons Let_def nat_add_distrib)
    qed
  qed
qed

lemma ReplaceAll_eq_spec: "pat \<noteq> [] \<Longrightarrow> ReplaceAll s pat [] = spec_remove_all pat s"
proof -
  assume ne: "pat \<noteq> []"
  show ?thesis
  proof (cases "count_loop s pat = 0")
    case True
    then have "replace_loop 0 s pat [] True = spec_remove_all pat s"
      using replace_loop_eq_spec[OF ne, of s True] by simp
    with True ne show ?thesis by (simp add: ReplaceAll_def Count_def)
  next
    case False
    with ne show ?thesis
      by (simp add: ReplaceAll_def Count_def replace_loop_eq_spec)
  qed
qed

text \<open>
  Where the pattern occurs at most once, removing every occurrence and removing the first
  one are the same, so there the normalizer does what the specification's first reading
  says.
\<close>

lemma remove_all_no_occurrence:
  assumes "pat \<noteq> []" and "count_loop s pat = 0"
  shows "spec_remove_all pat s = s"
  using replace_loop_eq_spec [OF assms(1), of s True] assms(2) by simp

lemma remove_all_single_occurrence:
  "pat \<noteq> [] \<Longrightarrow> count_loop s pat \<le> 1 \<Longrightarrow> spec_remove_all pat s = spec_remove_first pat s"
proof (induction pat s rule: spec_remove_first.induct)
  case (1 pat)
  then show ?case by simp
next
  case (2 pat c cs)
  show ?case
  proof (cases "prefix pat (c # cs)")
    case True
    with 2 have "count_loop (drop (length pat) (c # cs)) pat = 0"
      by (simp add: count_loop_prefix)
    with 2 True show ?thesis
      using remove_all_no_occurrence [of pat "drop (length pat) (c # cs)"] by simp
  next
    case False
    with 2 show ?thesis by (simp add: count_loop_Cons)
  qed
qed

lemma normalizer_single_occurrence:
  assumes "CHR '':'' \<in> set target"
    and "Count (spec_before_colon target) (CHR ''.'' # ns) \<le> 1"
  shows "GetDefaultHostFromTargetFunc ns target =
           Inr (spec_remove_first (CHR ''.'' # ns) (spec_before_colon target))"
  using assms
  by (simp add: GetDefaultHostFromTargetFunc_def slice_to_IndexByte_present
      ReplaceAll_eq_spec spec_before_colon_def Count_def remove_all_single_occurrence)

text \<open>
  C1, as amended. For a target that contains a colon, the normalizer returns the target
  up to its first colon with every occurrence of \<open>.namespace\<close> removed (scanning from
  the left, occurrences not overlapping), not only the first one.
\<close>

theorem normalizer_removes_every_occurrence:
  "CHR '':'' \<in> set target \<Longrightarrow>
     GetDefaultHostFromTargetFunc ns target =
       Inr (spec_remove_all (CHR ''.'' # ns) (spec_before_colon target))"
  by (simp add: GetDefaultHostFromTargetFunc_def slice_to_IndexByte_present
      ReplaceAll_eq_spec spec_before_colon_def)

theorem normalizer_removes_every_occurrence_witness:
  "CHR '':'' \<in> set ''my-service.my-namespace.local:3000'' \<and>
   GetDefaultHostFromTargetFunc ''my-namespace'' ''my-service.my-namespace.local:3000'' =
     Inr ''my-service.local''"
  using normalizer_removes_every_occurrence
    [of "''my-service.my-namespace.local:3000''" "''my-namespace''"]
  by (simp add: spec_before_colon_def)

text \<open>
  C1 as stated fails: with namespace \<open>ns\<close> and target \<open>a.ns.ns:80\<close> the code returns
  \<open>a\<close>, while removing only the first occurrence of \<open>.ns\<close> leaves \<open>a.ns\<close>.
\<close>

theorem normalizer_first_occurrence_counterexample:
  "CHR '':'' \<in> set ''a.ns.ns:80'' \<and>
   GetDefaultHostFromTargetFunc ''ns'' ''a.ns.ns:80'' = Inr ''a'' \<and>
   spec_remove_first (CHR ''.'' # ''ns'') (spec_before_colon ''a.ns.ns:80'') = ''a.ns''"
proof -
  have "GetDefaultHostFromTargetFunc ''ns'' ''a.ns.ns:80'' = Inr ''a''"
    by code_simp
  moreover have "spec_remove_first (CHR ''.'' # ''ns'') (spec_before_colon ''a.ns.ns:80'') = ''a.ns''"
    by (simp add: spec_before_colon_def)
  ultimately show ?thesis by simp
qed

text \<open>
  C8. For every namespace the normalizer returns a host on every target that contains a
  colon, and panics with the runtime's bounds error (the slice bound is \<open>-1\<close>) on every
  target that contains none.
\<close>

theorem normalizer_total_iff_colon:
  "(CHR '':'' \<in> set target \<longrightarrow>
      (\<exists>host. GetDefaultHostFromTargetFunc ns target = Inr host)) \<and>
   (CHR '':'' \<notin> set target \<longrightarrow>
      GetDefaultHostFromTargetFunc ns target = Inl (runtime_boundsError (- 1)))"
  by (simp add: GetDefaultHostFromTargetFunc_def slice_to_IndexByte_present
      slice_to_IndexByte_absent)

theorem normalizer_total_iff_colon_witness:
  "CHR '':'' \<in> set ''svc:443'' \<and>
   GetDefaultHostFromTargetFunc ''ns'' ''svc:443'' = Inr ''svc'' \<and>
   CHR '':'' \<notin> set ''my-service'' \<and>
   GetDefaultHostFromTargetFunc ''ns'' ''my-service'' = Inl (runtime_boundsError (- 1))"
proof -
  have "GetDefaultHostFromTargetFunc ''ns'' ''svc:443'' = Inr ''svc''"
    by code_simp
  then show ?thesis
    using normalizer_total_iff_colon [of "''svc:443''" "''ns''"]
      normalizer_total_iff_colon [of "''my-service''" "''ns''"]
    by simp
qed

section \<open>Properties of the server interceptor\<close>

text \<open>Reading the store after the writes, and the interceptor's parts one by one.\<close>

lemma segs_on_seg: "segs (on_seg p f w) q = (if q = p then f (segs w p) else segs w q)"
  by (simp add: on_seg_def)

lemma response_status_assign: "response_status (assign_Response_Status st s) = Some st"
  by (simp add: response_status_def assign_Response_Status_def Let_def)

lemma request_of_assign: "request_of (assign_Request r s) = Some r"
  by (simp add: request_of_def assign_Request_def)

lemma response_status_Close_seg:
  "response_status (segs (Close_seg p w) q) = response_status (segs w q)"
  by (simp add: Close_seg_def segs_on_seg response_status_def)

lemma traceString_of_first:
  "traceString_of md = (case md TraceIDHeaderKey of Some (v # vs) \<Rightarrow> v | _ \<Rightarrow> [])"
  by (simp add: traceString_of_def split: option.splits list.splits)

lemma server_before_handler_no_md:
  "incoming_md ctx = None \<Longrightarrow>
     server_before_handler sn ctx info w =
       (Inl (errors_New ''unable to read metadata''),
        [Call_Name ''only NewFixedSegmentNamer is supported''])"
  by (simp add: server_before_handler_def)

lemma server_before_handler_md:
  "incoming_md ctx = Some md \<Longrightarrow>
     server_before_handler sn ctx info w =
       (let seg = fresh w;
            reqData = \<lparr>Method = GrpcMethod, URL = FullMethod info,
                       UserAgent = CustomUserAgent,
                       ClientIP = (case peer ctx of None \<Rightarrow> [] | Some p \<Rightarrow> Addr p),
                       XForwardedFor = False, Traced = False\<rparr>
        in (Inr (ctx\<lparr>segment := Some seg\<rparr>, seg,
                 on_seg seg (assign_Request reqData)
                   (w\<lparr>segs := (segs w)(seg := new_Segment), fresh := Suc seg\<rparr>)),
            [Call_Name ''only NewFixedSegmentNamer is supported'',
             New_segment (sn ''only NewFixedSegmentNamer is supported'')
               (FromString (traceString_of md)) seg,
             Lock seg, Write_Request seg reqData, Unlock seg]))"
  by (simp add: server_before_handler_def NewSegmentFromHeader_def Let_def)

lemma server_before_handler_InrD:
  assumes "server_before_handler sn ctx info w = (Inr (ctx1, seg, w1), tr)"
  shows "\<exists>md. incoming_md ctx = Some md"
  using assms by (cases "incoming_md ctx") (simp_all add: server_before_handler_no_md)

lemma server_after_handler_Return:
  "server_after_handler seg (Return (resp, err), w2) =
     (Return (resp, err),
      Close_seg seg (on_seg seg (assign_Response_Status (if err \<noteq> None then 400 else 200)) w2),
      [Call_handler, Lock seg,
       Write_Response_Status seg (if err \<noteq> None then 400 else 200), Unlock seg,
       Close seg None])"
  by (simp add: server_after_handler_def Let_def)

lemma server_after_handler_Panic:
  "server_after_handler seg (Panic p, w2) =
     (Panic p, Close_seg seg w2, [Call_handler, Close seg None])"
  by (simp add: server_after_handler_def)

lemma server_interceptor_Inr:
  "server_before_handler sn ctx info w = (Inr (ctx1, seg, w1), tr) \<Longrightarrow>
     NewGrpcXrayUnaryServerInterceptor sn ctx req info handler w =
       (case server_after_handler seg (handler ctx1 req w1) of
          (out, w', tr') \<Rightarrow> (out, w', tr @ tr'))"
  by (simp add: NewGrpcXrayUnaryServerInterceptor_def)

text \<open>
  C3. When the incoming context carries no metadata the interceptor returns a nil result
  and the error \<open>unable to read metadata\<close> at once: the store is unchanged (no segment
  is created) and its only action is the call of the namer, so the handler is never
  invoked, whatever the handler is.
\<close>

theorem server_missing_metadata:
  "incoming_md ctx = None \<Longrightarrow>
     NewGrpcXrayUnaryServerInterceptor sn ctx req info handler w =
       (Return (None, Some (errors_New ''unable to read metadata'')), w,
        [Call_Name ''only NewFixedSegmentNamer is supported''])"
  by (simp add: NewGrpcXrayUnaryServerInterceptor_def server_before_handler_no_md)

theorem server_missing_metadata_witness:
  "incoming_md ex_ctx_no_md = None \<and>
   NewGrpcXrayUnaryServerInterceptor (fixed_namer ''svc'') ex_ctx_no_md 41 ex_info handler_ok ex_world =
     (Return (None, Some (errors_New ''unable to read metadata'')), ex_world,
      [Call_Name ''only NewFixedSegmentNamer is supported''])"
  using server_missing_metadata
    [of ex_ctx_no_md "fixed_namer ''svc''" 41 ex_info handler_ok ex_world]
  by (simp add: ex_ctx_no_md_def)

text \<open>
  C2, as amended. When the handler returns a non-nil error, the segment's response status
  is 400 when the interceptor returns, and the interceptor returns that same error with the
  result value the handler returned, unchanged (nil only when the handler returned nil).
\<close>

theorem server_handler_error:
  assumes "server_before_handler sn ctx info w = (Inr (ctx1, seg, w1), tr)"
    and "handler ctx1 req w1 = (Return (resp, Some e), w2)"
  shows "fst (NewGrpcXrayUnaryServerInterceptor sn ctx req info handler w) = Return (resp, Some e) \<and>
         response_status
           (segs (fst (snd (NewGrpcXrayUnaryServerInterceptor sn ctx req info handler w))) seg) =
           Some 400"
  using assms
  by (simp add: server_interceptor_Inr server_after_handler_Return
      response_status_Close_seg segs_on_seg response_status_assign)


lemma ex_before:
  "server_before_handler (fixed_namer ''svc'') ex_ctx ex_info ex_world =
     (Inr (ex_ctx1, 0, ex_w1), ex_tr)"
  by (simp add: server_before_handler_def NewSegmentFromHeader_def ex_ctx_def ex_ctx1_def
      ex_w1_def ex_tr_def ex_world_def ex_info_def ex_reqData_def GrpcMethod_def
      CustomUserAgent_def fixed_namer_def traceString_of_def ex_md_def Let_def)

theorem server_handler_error_witness:
  "server_before_handler (fixed_namer ''svc'') ex_ctx ex_info ex_world =
     (Inr (ex_ctx1, 0, ex_w1), ex_tr) \<and>
   handler_fails ex_ctx1 41 ex_w1 = (Return (None, Some ex_err), ex_w1) \<and>
   fst (NewGrpcXrayUnaryServerInterceptor (fixed_namer ''svc'') ex_ctx 41 ex_info handler_fails
          ex_world) = Return (None, Some ex_err) \<and>
   response_status
     (segs (fst (snd (NewGrpcXrayUnaryServerInterceptor (fixed_namer ''svc'') ex_ctx 41 ex_info
                        handler_fails ex_world))) 0) = Some 400"
proof -
  have h: "handler_fails ex_ctx1 41 ex_w1 = (Return (None, Some ex_err), ex_w1)"
    by (simp add: handler_fails_def)
  show ?thesis
    using server_handler_error [where handler = handler_fails and req = 41, OF ex_before h]
      ex_before h by simp
qed

text \<open>
  C2 as stated fails: a handler that returns both a result and an error gets both back
  from the interceptor, so the result is not nil.
\<close>

theorem server_handler_error_result_counterexample:
  "fst (handler_fails_with_result ex_ctx1 41 ex_w1) = Return (Some 7, Some ex_err) \<and>
   fst (NewGrpcXrayUnaryServerInterceptor (fixed_namer ''svc'') ex_ctx 41 ex_info
          handler_fails_with_result ex_world) = Return (Some 7, Some ex_err) \<and>
   Some (7::nat) \<noteq> None"
  by (simp add: server_interceptor_Inr [OF ex_before] handler_fails_with_result_def
      server_after_handler_Return)

text \<open>
  The actions of an invocation that has metadata: the segment is created, the request is
  attached under the lock, the handler is called, and then either the status is written
  and the segment closed, or (after a panic of the handler) the segment is closed only.
\<close>

lemma server_trace:
  assumes "incoming_md ctx = Some md"
  shows "\<exists>ctx1 w1 reqData.
           snd (snd (NewGrpcXrayUnaryServerInterceptor sn ctx req info handler w)) =
             [Call_Name ''only NewFixedSegmentNamer is supported'',
              New_segment (sn ''only NewFixedSegmentNamer is supported'')
                (FromString (traceString_of md)) (fresh w),
              Lock (fresh w), Write_Request (fresh w) reqData, Unlock (fresh w)] @
             (case fst (handler ctx1 req w1) of
                Return (resp, err) \<Rightarrow>
                  [Call_handler, Lock (fresh w),
                   Write_Response_Status (fresh w) (if err \<noteq> None then 400 else 200),
                   Unlock (fresh w), Close (fresh w) None]
              | Panic p \<Rightarrow> [Call_handler, Close (fresh w) None])"
proof -
  obtain ctx1 w1 reqData where
    b: "server_before_handler sn ctx info w =
          (Inr (ctx1, fresh w, w1),
           [Call_Name ''only NewFixedSegmentNamer is supported'',
            New_segment (sn ''only NewFixedSegmentNamer is supported'')
              (FromString (traceString_of md)) (fresh w),
            Lock (fresh w), Write_Request (fresh w) reqData, Unlock (fresh w)])"
    using server_before_handler_md [OF assms, of sn info w] by (simp add: Let_def)
  obtain out w2 where h: "handler ctx1 req w1 = (out, w2)"
    by (cases "handler ctx1 req w1")
  show ?thesis
  proof (cases out)
    case (Return r)
    obtain resp err where r: "r = (resp, err)" by (cases r)
    show ?thesis
      by (rule exI [of _ ctx1], rule exI [of _ w1], rule exI [of _ reqData])
        (simp add: server_interceptor_Inr [OF b] h Return r server_after_handler_Return)
  next
    case (Panic p)
    show ?thesis
      by (rule exI [of _ ctx1], rule exI [of _ w1], rule exI [of _ reqData])
        (simp add: server_interceptor_Inr [OF b] h Panic server_after_handler_Panic)
  qed
qed

text \<open>
  C6. With metadata present, the header the segment is created from is parsed from the
  first value under the trace-header key when the key is present with a non-empty list,
  and from the empty string otherwise.
\<close>

theorem server_trace_string:
  assumes "incoming_md ctx = Some md"
  shows "filter is_New_segment
           (snd (snd (NewGrpcXrayUnaryServerInterceptor sn ctx req info handler w))) =
         [New_segment (sn ''only NewFixedSegmentNamer is supported'')
            (FromString (case md TraceIDHeaderKey of Some (v # vs) \<Rightarrow> v | _ \<Rightarrow> []))
            (fresh w)]"
proof -
  from server_trace [OF assms, of sn req info handler w]
  obtain ctx1 w1 reqData where
    t: "snd (snd (NewGrpcXrayUnaryServerInterceptor sn ctx req info handler w)) =
             [Call_Name ''only NewFixedSegmentNamer is supported'',
              New_segment (sn ''only NewFixedSegmentNamer is supported'')
                (FromString (traceString_of md)) (fresh w),
              Lock (fresh w), Write_Request (fresh w) reqData, Unlock (fresh w)] @
             (case fst (handler ctx1 req w1) of
                Return (resp, err) \<Rightarrow>
                  [Call_handler, Lock (fresh w),
                   Write_Response_Status (fresh w) (if err \<noteq> None then 400 else 200),
                   Unlock (fresh w), Close (fresh w) None]
              | Panic p \<Rightarrow> [Call_handler, Close (fresh w) None])"
    by blast
  show ?thesis
    unfolding t
    by (simp add: traceString_of_first split: outcome.splits prod.splits)
qed

theorem server_trace_string_witness:
  "incoming_md ex_ctx = Some ex_md \<and> incoming_md ex_ctx_no_peer = Some ex_md_empty_list \<and>
   filter is_New_segment
     (snd (snd (NewGrpcXrayUnaryServerInterceptor (fixed_namer ''svc'') ex_ctx 41 ex_info
                  handler_ok ex_world))) =
     [New_segment ''svc'' (FromString ''Root=1-5759e988-bd862e3fe1be46a994272793;Sampled=1'') 0] \<and>
   filter is_New_segment
     (snd (snd (NewGrpcXrayUnaryServerInterceptor (fixed_namer ''svc'') ex_ctx_no_peer 41 ex_info
                  handler_ok ex_world))) =
     [New_segment ''svc'' (FromString []) 0]"
proof -
  have a: "incoming_md ex_ctx = Some ex_md" by (simp add: ex_ctx_def)
  have b: "incoming_md ex_ctx_no_peer = Some ex_md_empty_list" by (simp add: ex_ctx_no_peer_def)
  show ?thesis
    using server_trace_string [OF a, of "fixed_namer ''svc''" 41 ex_info handler_ok ex_world]
      server_trace_string [OF b, of "fixed_namer ''svc''" 41 ex_info handler_ok ex_world] a b
    by (simp add: ex_md_def ex_md_empty_list_def fixed_namer_def ex_world_def)
qed

text \<open>
  C9. In every invocation that creates a segment, the interceptor calls the close operation
  exactly once, on the segment it created and with a nil error, as its last action:
  after an error of the handler, after its success, and after its panic.
\<close>

theorem server_close_once:
  assumes "incoming_md ctx = Some md"
  shows "filter is_Close
           (snd (snd (NewGrpcXrayUnaryServerInterceptor sn ctx req info handler w))) =
         [Close (fresh w) None] \<and>
         last (snd (snd (NewGrpcXrayUnaryServerInterceptor sn ctx req info handler w))) =
           Close (fresh w) None"
proof -
  from server_trace [OF assms, of sn req info handler w]
  obtain ctx1 w1 reqData where
    t: "snd (snd (NewGrpcXrayUnaryServerInterceptor sn ctx req info handler w)) =
             [Call_Name ''only NewFixedSegmentNamer is supported'',
              New_segment (sn ''only NewFixedSegmentNamer is supported'')
                (FromString (traceString_of md)) (fresh w),
              Lock (fresh w), Write_Request (fresh w) reqData, Unlock (fresh w)] @
             (case fst (handler ctx1 req w1) of
                Return (resp, err) \<Rightarrow>
                  [Call_handler, Lock (fresh w),
                   Write_Response_Status (fresh w) (if err \<noteq> None then 400 else 200),
                   Unlock (fresh w), Close (fresh w) None]
              | Panic p \<Rightarrow> [Call_handler, Close (fresh w) None])"
    by blast
  show ?thesis
    unfolding t
    by (simp split: outcome.splits prod.splits)
qed


theorem server_close_once_witness:
  "incoming_md ex_ctx = Some ex_md \<and>
   filter is_Close
     (snd (snd (NewGrpcXrayUnaryServerInterceptor (fixed_namer ''svc'') ex_ctx 41 ex_info
                  handler_panics ex_world))) = [Close 0 None] \<and>
   filter is_Close
     (snd (snd (NewGrpcXrayUnaryServerInterceptor (fixed_namer ''svc'') ex_ctx 41 ex_info
                  handler_fails ex_world))) = [Close 0 None] \<and>
   filter is_Close
     (snd (snd (NewGrpcXrayUnaryServerInterceptor (fixed_namer ''svc'') ex_ctx 41 ex_info
                  handler_ok ex_world))) = [Close 0 None]"
proof -
  have a: "incoming_md ex_ctx = Some ex_md" by (simp add: ex_ctx_def)
  show ?thesis
    using server_close_once [OF a, of "fixed_namer ''svc''" 41 ex_info handler_panics ex_world]
      server_close_once [OF a, of "fixed_namer ''svc''" 41 ex_info handler_fails ex_world]
      server_close_once [OF a, of "fixed_namer ''svc''" 41 ex_info handler_ok ex_world] a
    by (simp add: ex_world_def)
qed

text \<open>
  C7. When the interceptor has created segment \<open>seg\<close> and is about to call the handler
  with context \<open>ctx1\<close> and store \<open>w1\<close>, the request attached to the segment in \<open>w1\<close> is
  exactly: method \<open>POST\<close>, URL the full method of the server info, client address the
  peer's address when the context has a peer and the empty string otherwise, user agent
  \<open>Vendrive-gRPC-XRAY-Interceptor\<close>; the remaining fields are zero. The handler is
  invoked on exactly that context and store.
\<close>

theorem server_request_metadata:
  assumes "server_before_handler sn ctx info w = (Inr (ctx1, seg, w1), tr)"
  shows "request_of (segs w1 seg) =
           Some \<lparr>Method = ''POST'', URL = FullMethod info,
                 UserAgent = ''Vendrive-gRPC-XRAY-Interceptor'',
                 ClientIP = (case peer ctx of None \<Rightarrow> [] | Some p \<Rightarrow> Addr p),
                 XForwardedFor = False, Traced = False\<rparr> \<and>
         NewGrpcXrayUnaryServerInterceptor sn ctx req info handler w =
           (case server_after_handler seg (handler ctx1 req w1) of
              (out, w', tr') \<Rightarrow> (out, w', tr @ tr'))"
proof -
  obtain md where md: "incoming_md ctx = Some md"
    using server_before_handler_InrD [OF assms] by blast
  from server_before_handler_md [OF md, of sn info w] assms
  have "request_of (segs w1 seg) =
           Some \<lparr>Method = ''POST'', URL = FullMethod info,
                 UserAgent = ''Vendrive-gRPC-XRAY-Interceptor'',
                 ClientIP = (case peer ctx of None \<Rightarrow> [] | Some p \<Rightarrow> Addr p),
                 XForwardedFor = False, Traced = False\<rparr>"
    by (auto simp: Let_def segs_on_seg request_of_assign GrpcMethod_def CustomUserAgent_def)
  then show ?thesis
    by (simp add: server_interceptor_Inr [OF assms])
qed

theorem server_request_metadata_witness:
  "server_before_handler (fixed_namer ''svc'') ex_ctx ex_info ex_world =
     (Inr (ex_ctx1, 0, ex_w1), ex_tr) \<and>
   request_of (segs ex_w1 0) =
     Some \<lparr>Method = ''POST'', URL = ''/pkg.Svc/Get'',
           UserAgent = ''Vendrive-gRPC-XRAY-Interceptor'',
           ClientIP = ''10.0.0.7:51234'', XForwardedFor = False, Traced = False\<rparr>"
  using server_request_metadata [where handler = handler_ok and req = 41, OF ex_before] ex_before
  by (simp add: ex_info_def ex_ctx_def)

section \<open>Properties of the client interceptor\<close>

lemma BeginSubsegment_segment:
  "BeginSubsegment ctx name w = Some (c, seg, wb) \<Longrightarrow> segment c = Some seg"
  by (auto simp: BeginSubsegment_def Let_def split: option.splits)

lemma BeginSubsegment_None: "segment ctx = None \<Longrightarrow> BeginSubsegment ctx name w = None"
  by (simp add: BeginSubsegment_def)

lemma client_untraced:
  assumes "segment ctx = None" and "hostFromTarget (Target cc) = Inr host"
  shows "NewGrpcXrayUnaryClientInterceptor hostFromTarget downstream ctx method req resp cc
           invoker opts w =
         (case invoker ctx method req resp cc opts w of
            (err, w') \<Rightarrow>
              (Return err, w',
               [Call_hostFromTarget (Target cc), Begin_subsegment host None, Call_invoker]))"
  using assms
  by (simp add: NewGrpcXrayUnaryClientInterceptor_def Capture_def BeginSubsegment_None
      client_body_def split: prod.splits)

lemma client_traced:
  assumes "hostFromTarget (Target cc) = Inr host"
    and "BeginSubsegment ctx host w = Some (c, seg, wb)"
    and "invoker
           (AppendToOutgoingContext c TraceIDHeaderKey
              (downstream (on_seg seg (assign_Request_Method GrpcMethod) wb) seg))
           method req resp cc opts (on_seg seg (assign_Request_Method GrpcMethod) wb) =
         (err, wi)"
  shows "NewGrpcXrayUnaryClientInterceptor hostFromTarget downstream ctx method req resp cc
           invoker opts w =
         (Return err,
          Close_seg seg
            (on_seg seg (assign_Response_Status (if err \<noteq> None then 400 else 200)) wi),
          [Call_hostFromTarget (Target cc), Begin_subsegment host (Some seg),
           Lock seg, Write_Request_Method seg GrpcMethod,
           Append_outgoing TraceIDHeaderKey
             (downstream (on_seg seg (assign_Request_Method GrpcMethod) wb) seg),
           Unlock seg, Call_invoker,
           Lock seg, Write_Response_Status seg (if err \<noteq> None then 400 else 200), Unlock seg,
           Close seg err])"
  using assms BeginSubsegment_segment [OF assms(2)]
  by (simp add: NewGrpcXrayUnaryClientInterceptor_def Capture_def client_body_def Let_def)

lemma client_panics:
  "hostFromTarget (Target cc) = Inl p \<Longrightarrow>
     NewGrpcXrayUnaryClientInterceptor hostFromTarget downstream ctx method req resp cc
       invoker opts w = (Panic p, w, [Call_hostFromTarget (Target cc)])"
  by (simp add: NewGrpcXrayUnaryClientInterceptor_def)

text \<open>
  C4, as amended. When \<open>hostFromTarget\<close> returns and the context has no active segment,
  the interceptor invokes the wrapped call on the caller's own context and store (nothing
  is appended to the outgoing metadata, no segment field is written), returns the
  invoker's error unchanged and leaves the store as the invoker left it.
\<close>

theorem client_no_segment:
  assumes "segment ctx = None" and "hostFromTarget (Target cc) = Inr host"
  shows "NewGrpcXrayUnaryClientInterceptor hostFromTarget downstream ctx method req resp cc
           invoker opts w =
         (Return (fst (invoker ctx method req resp cc opts w)),
          snd (invoker ctx method req resp cc opts w),
          [Call_hostFromTarget (Target cc), Begin_subsegment host None, Call_invoker])"
  using client_untraced [where hostFromTarget = hostFromTarget, OF assms]
  by (simp add: split_beta)

theorem client_no_segment_witness:
  "segment ex_ctx_untraced = None \<and>
   GetDefaultHostFromTargetFunc ''my-namespace'' (Target ex_cc) = Inr ''my-service.local'' \<and>
   NewGrpcXrayUnaryClientInterceptor (GetDefaultHostFromTargetFunc ''my-namespace'') ex_downstream
     ex_ctx_untraced ''/pkg.Svc/Get'' 1 2 ex_cc invoker_fails [] ex_world =
     (Return (Some ex_err), ex_world,
      [Call_hostFromTarget ''my-service.my-namespace.local:3000'',
       Begin_subsegment ''my-service.local'' None, Call_invoker])"
proof -
  have a: "segment ex_ctx_untraced = None" by (simp add: ex_ctx_untraced_def)
  have b: "GetDefaultHostFromTargetFunc ''my-namespace'' (Target ex_cc) = Inr ''my-service.local''"
    unfolding ex_cc_def by code_simp
  show ?thesis
    using client_no_segment [where hostFromTarget = "GetDefaultHostFromTargetFunc ''my-namespace''"
        and downstream = ex_downstream and req = 1 and resp = 2
        and invoker = invoker_fails and opts = "[]" and w = ex_world, OF a b] a b
    by (simp add: invoker_fails_def ex_cc_def)
qed

text \<open>
  C4 as stated fails: with the default normalizer and a target without a colon, the
  interceptor panics before it looks for a segment, and the wrapped call is not invoked.
\<close>

theorem client_no_segment_counterexample:
  "segment ex_ctx_untraced = None \<and>
   NewGrpcXrayUnaryClientInterceptor (GetDefaultHostFromTargetFunc ''my-namespace'') ex_downstream
     ex_ctx_untraced ''/pkg.Svc/Get'' 1 2 ex_cc_no_port invoker_ok [] ex_world =
     (Panic (runtime_boundsError (- 1)), ex_world, [Call_hostFromTarget ''my-service''])"
proof -
  have "GetDefaultHostFromTargetFunc ''my-namespace'' (Target ex_cc_no_port) =
          Inl (runtime_boundsError (- 1))"
    unfolding ex_cc_no_port_def by code_simp
  then show ?thesis
    by (simp add: client_panics ex_ctx_untraced_def) (simp add: ex_cc_no_port_def)
qed

text \<open>
  C10. In every invocation \<open>hostFromTarget\<close> is applied to the connection's target
  exactly once, as the first action, before the context is looked at; when it panics the
  interceptor panics with the same value and does nothing else, whether or not the
  context has a segment.
\<close>

theorem client_hostFromTarget_first:
  "take 1 (snd (snd (NewGrpcXrayUnaryClientInterceptor hostFromTarget downstream ctx method req
                       resp cc invoker opts w))) = [Call_hostFromTarget (Target cc)] \<and>
   filter is_hostFromTarget
     (snd (snd (NewGrpcXrayUnaryClientInterceptor hostFromTarget downstream ctx method req resp
                  cc invoker opts w))) = [Call_hostFromTarget (Target cc)] \<and>
   (\<forall>p. hostFromTarget (Target cc) = Inl p \<longrightarrow>
        NewGrpcXrayUnaryClientInterceptor hostFromTarget downstream ctx method req resp cc
          invoker opts w = (Panic p, w, [Call_hostFromTarget (Target cc)]))"
proof (cases "hostFromTarget (Target cc)")
  case (Inl p)
  then show ?thesis by (simp add: client_panics)
next
  case (Inr host)
  show ?thesis
  proof (cases "BeginSubsegment ctx host w")
    case None
    then have "segment ctx = None"
      by (simp add: BeginSubsegment_def Let_def split: option.splits)
    from client_untraced [where hostFromTarget = hostFromTarget and downstream = downstream
        and req = req and resp = resp and invoker = invoker
        and opts = opts and w = w, OF this Inr] Inr show ?thesis
      by (simp add: split_beta)
  next
    case (Some t)
    obtain c seg wb where t: "t = (c, seg, wb)" by (cases t)
    obtain err wi where
      i: "invoker
           (AppendToOutgoingContext c TraceIDHeaderKey
              (downstream (on_seg seg (assign_Request_Method GrpcMethod) wb) seg))
           method req resp cc opts (on_seg seg (assign_Request_Method GrpcMethod) wb) =
         (err, wi)"
      by (cases "invoker
           (AppendToOutgoingContext c TraceIDHeaderKey
              (downstream (on_seg seg (assign_Request_Method GrpcMethod) wb) seg))
           method req resp cc opts (on_seg seg (assign_Request_Method GrpcMethod) wb)")
    from client_traced [where hostFromTarget = hostFromTarget and invoker = invoker
        and downstream = downstream, OF Inr Some [unfolded t] i] Inr show ?thesis
      by simp
  qed
qed

theorem client_hostFromTarget_first_witness:
  "GetDefaultHostFromTargetFunc ''local'' (Target ex_cc_no_port) = Inl (runtime_boundsError (- 1)) \<and>
   segment ex_ctx_untraced = None \<and>
   NewGrpcXrayUnaryClientInterceptor (GetDefaultHostFromTargetFunc ''local'') ex_downstream
     ex_ctx_untraced ''/pkg.Svc/Get'' 1 2 ex_cc_no_port invoker_ok [] ex_world_traced =
     (Panic (runtime_boundsError (- 1)), ex_world_traced, [Call_hostFromTarget ''my-service''])"
proof -
  have a: "GetDefaultHostFromTargetFunc ''local'' (Target ex_cc_no_port) =
          Inl (runtime_boundsError (- 1))"
    unfolding ex_cc_no_port_def by code_simp
  have b: "Target ex_cc_no_port = ''my-service''" by (simp add: ex_cc_no_port_def)
  show ?thesis
    using client_hostFromTarget_first [of "GetDefaultHostFromTargetFunc ''local''" ex_downstream
        ex_ctx_untraced "''/pkg.Svc/Get''" 1 2 ex_cc_no_port invoker_ok "[]" ex_world_traced] a
    by (simp add: b ex_ctx_untraced_def)
qed


section \<open>Response status\<close>

lemma server_status:
  assumes "server_before_handler sn ctx info w = (Inr (ctx1, seg, w1), tr)"
    and "handler ctx1 req w1 = (Return (resp, err), w2)"
  shows "response_status
           (segs (fst (snd (NewGrpcXrayUnaryServerInterceptor sn ctx req info handler w))) seg) =
           Some (if err = None then 200 else 400) \<and>
         filter is_status_write
           (snd (snd (NewGrpcXrayUnaryServerInterceptor sn ctx req info handler w))) =
           [Write_Response_Status seg (if err = None then 200 else 400)]"
proof -
  obtain md where md: "incoming_md ctx = Some md"
    using server_before_handler_InrD [OF assms(1)] by blast
  have tr: "filter is_status_write tr = []"
    using server_before_handler_md [OF md, of sn info w] assms(1)
    by (auto simp: Let_def)
  show ?thesis
    using assms(2) tr
    by (simp add: server_interceptor_Inr [OF assms(1)] server_after_handler_Return
        response_status_Close_seg segs_on_seg response_status_assign)
qed

lemma client_status:
  assumes "hostFromTarget (Target cc) = Inr host"
    and "BeginSubsegment ctx host w = Some (c, seg, wb)"
    and "invoker
           (AppendToOutgoingContext c TraceIDHeaderKey
              (downstream (on_seg seg (assign_Request_Method GrpcMethod) wb) seg))
           method req resp cc opts (on_seg seg (assign_Request_Method GrpcMethod) wb) =
         (err, wi)"
  shows "response_status
           (segs (fst (snd (NewGrpcXrayUnaryClientInterceptor hostFromTarget downstream ctx
                              method req resp cc invoker opts w))) seg) =
           Some (if err = None then 200 else 400) \<and>
         filter is_status_write
           (snd (snd (NewGrpcXrayUnaryClientInterceptor hostFromTarget downstream ctx method req
                        resp cc invoker opts w))) =
           [Write_Response_Status seg (if err = None then 200 else 400)]"
  by (simp add: client_traced [where hostFromTarget = hostFromTarget and invoker = invoker
        and downstream = downstream, OF assms]
      response_status_Close_seg segs_on_seg response_status_assign)

text \<open>
  C5. In a server invocation that created a segment and whose handler returned, and in a
  client invocation whose subsegment exists, the segment's response status when the
  interceptor returns is 400 if the returned error is non-nil and 200 if it is nil,
  whatever the result value and whatever the error is; the interceptor writes the status
  once, with that value.
\<close>

theorem status_from_error_only:
  "(server_before_handler sn sctx info sw = (Inr (ctx1, sseg, w1), tr) \<longrightarrow>
    handler ctx1 sreq w1 = (Return (sresp, serr), w2) \<longrightarrow>
      response_status
        (segs (fst (snd (NewGrpcXrayUnaryServerInterceptor sn sctx sreq info handler sw))) sseg) =
        Some (if serr = None then 200 else 400) \<and>
      filter is_status_write
        (snd (snd (NewGrpcXrayUnaryServerInterceptor sn sctx sreq info handler sw))) =
        [Write_Response_Status sseg (if serr = None then 200 else 400)]) \<and>
   (hostFromTarget (Target cc) = Inr host \<longrightarrow>
    BeginSubsegment ctx host w = Some (c, seg, wb) \<longrightarrow>
    invoker
      (AppendToOutgoingContext c TraceIDHeaderKey
         (downstream (on_seg seg (assign_Request_Method GrpcMethod) wb) seg))
      method req resp cc opts (on_seg seg (assign_Request_Method GrpcMethod) wb) = (err, wi) \<longrightarrow>
      response_status
        (segs (fst (snd (NewGrpcXrayUnaryClientInterceptor hostFromTarget downstream ctx
                           method req resp cc invoker opts w))) seg) =
        Some (if err = None then 200 else 400) \<and>
      filter is_status_write
        (snd (snd (NewGrpcXrayUnaryClientInterceptor hostFromTarget downstream ctx method req
                     resp cc invoker opts w))) =
        [Write_Response_Status seg (if err = None then 200 else 400)])"
  using server_status [where handler = handler and sn = sn and ctx = sctx and info = info
      and w = sw and req = sreq and seg = sseg and ?ctx1.0 = ctx1 and ?w1.0 = w1 and tr = tr
      and resp = sresp and err = serr and ?w2.0 = w2]
    client_status [where hostFromTarget = hostFromTarget and invoker = invoker
      and downstream = downstream and cc = cc and host = host and ctx = ctx and w = w and c = c
      and seg = seg and wb = wb and req = req and resp = resp
      and opts = opts and err = err and wi = wi]
  by blast

lemma ex_begin:
  "BeginSubsegment ex_ctx_traced ''my-service.local'' ex_world_traced = Some (ex_c, 1, ex_wb)"
  by (simp add: BeginSubsegment_def ex_ctx_traced_def ex_world_traced_def ex_c_def ex_wb_def)

lemma ex_host:
  "GetDefaultHostFromTargetFunc ''my-namespace'' (Target ex_cc) = Inr ''my-service.local''"
  unfolding ex_cc_def by code_simp

theorem status_from_error_only_witness:
  "server_before_handler (fixed_namer ''svc'') ex_ctx ex_info ex_world =
     (Inr (ex_ctx1, 0, ex_w1), ex_tr) \<and>
   handler_ok ex_ctx1 41 ex_w1 = (Return (Some 42, None), ex_w1) \<and>
   response_status
     (segs (fst (snd (NewGrpcXrayUnaryServerInterceptor (fixed_namer ''svc'') ex_ctx 41 ex_info
                        handler_ok ex_world))) 0) = Some 200 \<and>
   GetDefaultHostFromTargetFunc ''my-namespace'' (Target ex_cc) = Inr ''my-service.local'' \<and>
   BeginSubsegment ex_ctx_traced ''my-service.local'' ex_world_traced = Some (ex_c, 1, ex_wb) \<and>
   invoker_fails
      (AppendToOutgoingContext ex_c TraceIDHeaderKey
         (ex_downstream (on_seg 1 (assign_Request_Method GrpcMethod) ex_wb) 1))
      ''/pkg.Svc/Get'' 1 2 ex_cc [] (on_seg 1 (assign_Request_Method GrpcMethod) ex_wb) =
     (Some ex_err, on_seg 1 (assign_Request_Method GrpcMethod) ex_wb) \<and>
   response_status
     (segs (fst (snd (NewGrpcXrayUnaryClientInterceptor
                        (GetDefaultHostFromTargetFunc ''my-namespace'') ex_downstream
                        ex_ctx_traced ''/pkg.Svc/Get'' 1 2 ex_cc invoker_fails []
                        ex_world_traced))) 1) = Some 400"
proof -
  have h: "handler_ok ex_ctx1 41 ex_w1 = (Return (Some 42, None), ex_w1)"
    by (simp add: handler_ok_def)
  have i: "invoker_fails
      (AppendToOutgoingContext ex_c TraceIDHeaderKey
         (ex_downstream (on_seg 1 (assign_Request_Method GrpcMethod) ex_wb) 1))
      ''/pkg.Svc/Get'' 1 2 ex_cc [] (on_seg 1 (assign_Request_Method GrpcMethod) ex_wb) =
     (Some ex_err, on_seg 1 (assign_Request_Method GrpcMethod) ex_wb)"
    by (simp add: invoker_fails_def)
  show ?thesis
    using status_from_error_only [where handler = handler_ok and sn = "fixed_namer ''svc''"
        and sctx = ex_ctx and info = ex_info and sw = ex_world and sreq = 41 and sseg = 0
        and ?ctx1.0 = ex_ctx1 and ?w1.0 = ex_w1 and tr = ex_tr and sresp = "Some 42" and serr = None
        and ?w2.0 = ex_w1
        and hostFromTarget = "GetDefaultHostFromTargetFunc ''my-namespace''"
        and invoker = invoker_fails and downstream = ex_downstream and cc = ex_cc
        and host = "''my-service.local''" and ctx = ex_ctx_traced and w = ex_world_traced
        and c = ex_c and seg = 1 and wb = ex_wb and req = 1
        and resp = 2 and opts = "[]" and err = "Some ex_err"
        and wi = "on_seg 1 (assign_Request_Method GrpcMethod) ex_wb"]
      ex_before h ex_host ex_begin i
    by simp
qed

end
